theory Spec2Isabelle
  imports Main
begin

section \<open>The multisig context provider: data model\<close>

text \<open>
  The controller is the React component \<open>MultisigContextProvider\<close>. Its \<open>this.state\<close>
  object is the published snapshot. Every optional JavaScript value (\<open>undefined\<close>) is an
  \<open>option\<close>; an address is a string and the empty string is falsy.
\<close>

type_synonym address = string
type_synonym bigmap = nat
type_synonym contract = string
type_synonym operation = nat
type_synonym micheline = string

text \<open>The contract storage as the indexer returns it; big maps are integer handles.\<close>

record storage =
  storage_counter :: nat
  storage_expiration_time :: int
  storage_minimum_votes :: int
  storage_proposals :: bigmap
  storage_users :: "address list"
  storage_votes :: bigmap

record transfer =
  amount :: int
  destination :: address

record state =
  userAddress :: "address option"
  contractAddresses :: "address list option"
  contractAddress :: address
  storage :: "storage option"
  balance :: "int option"
  userAliases :: "(address \<times> string) list option"
  proposals :: "(nat \<times> string) list option"
  userVotes :: "(nat \<times> bool) list option"
  contract :: "contract option"
  informationMessage :: "string option"
  confirmationMessage :: "string option"
  errorMessage :: "string option"

text \<open>The contract entry points with their parameters.\<close>

datatype entry_call =
    Text_proposal string
  | Transfer_mutez_proposal "transfer list"
  | Transfer_token_proposal address nat "transfer list"
  | Minimum_votes_proposal int
  | Expiration_time_proposal int
  | Add_user_proposal address
  | Remove_user_proposal address
  | Lambda_function_proposal micheline
  | Vote_proposal nat bool
  | Execute_proposal nat

record origination_storage =
  o_counter :: nat
  o_expiration_time :: int
  o_metadata :: "(string \<times> string) list"
  o_minimum_votes :: int
  o_proposals :: "(nat \<times> string) list"
  o_users :: "address list"
  o_votes :: "(nat \<times> bool) list"

record upload_file =
  file_name :: string
  file_bytes :: string

datatype ipfs_payload = JsonMetadata string | RawFile upload_file

text \<open>One label per call into a collaborator (chain query, wallet, upload client).\<close>

datatype "call" =
    GetSimilarContractAddresses address
  | GetContractStorage address
  | GetBalance address
  | GetUserAliases "address list"
  | GetBigmapKeys bigmap
  | GetUserVotes "address option" bigmap
  | GetContract address
  | GetUserAddress
  | RequestPermissions
  | ClearActiveAccount
  | Send contract entry_call
  | Confirmation operation
  | IpfsAdd ipfs_payload
  | OriginateSend origination_storage
  | OriginationOperation operation

datatype js_error = TypeError

datatype outcome = Returned | Threw js_error

text \<open>
  The collaborators are parameters. Each asynchronous one is a function of the outside
  world \<open>'w\<close> (chain, wallet, upload service) returning its answer and the world after
  the call; \<open>None\<close> is \<open>undefined\<close>, the value the code receives after a caught and logged
  failure. \<open>validateAddress\<close>, \<open>stringToHex\<close> and the Micheline parser are pure.
\<close>

record 'w collab =
  validateAddress :: "address \<Rightarrow> nat"
  utils_stringToHex :: "string \<Rightarrow> string"
  parseMichelineExpression :: "string \<Rightarrow> micheline option"
  utils_getSimilarContractAddresses :: "address \<Rightarrow> 'w \<Rightarrow> address list option \<times> 'w"
  utils_getContractStorage :: "address \<Rightarrow> 'w \<Rightarrow> storage option \<times> 'w"
  utils_getBalance :: "address \<Rightarrow> 'w \<Rightarrow> int option \<times> 'w"
  utils_getUserAliases :: "address list \<Rightarrow> 'w \<Rightarrow> (address \<times> string) list option \<times> 'w"
  utils_getBigmapKeys :: "bigmap \<Rightarrow> 'w \<Rightarrow> (nat \<times> string) list option \<times> 'w"
  utils_getUserVotes :: "address option \<Rightarrow> bigmap \<Rightarrow> 'w \<Rightarrow> (nat \<times> bool) list option \<times> 'w"
  utils_getContract :: "address \<Rightarrow> 'w \<Rightarrow> contract option \<times> 'w"
  utils_getUserAddress :: "'w \<Rightarrow> address option \<times> 'w"
  wallet_requestPermissions :: "'w \<Rightarrow> bool \<times> 'w"
  wallet_clearActiveAccount :: "'w \<Rightarrow> unit \<times> 'w"
  entry_send :: "contract \<Rightarrow> entry_call \<Rightarrow> 'w \<Rightarrow> operation option \<times> 'w"
  op_confirmation :: "operation \<Rightarrow> 'w \<Rightarrow> bool \<times> 'w"
  ipfs_add :: "ipfs_payload \<Rightarrow> 'w \<Rightarrow> string option \<times> 'w"
  originate_send :: "origination_storage \<Rightarrow> 'w \<Rightarrow> operation option \<times> 'w"
  op_originationOperation :: "operation \<Rightarrow> 'w \<Rightarrow> address option \<times> 'w"

text \<open>
  The whole system: the snapshot, the one persisted key of \<open>window.localStorage\<close>, the
  outside world, and the trace of collaborator calls made so far.
\<close>

record 'w sys =
  state :: state
  localStorage :: "address option"
  world :: "'w"
  calls :: "call list"

section \<open>Primitive steps\<close>

definition collab_call :: "call \<Rightarrow> ('w \<Rightarrow> 'r \<times> 'w) \<Rightarrow> 'w sys \<Rightarrow> 'r \<times> 'w sys" where
  "collab_call lbl f s =
     (fst (f (world s)), s\<lparr>world := snd (f (world s)), calls := calls s @ [lbl]\<rparr>)"

definition setState :: "(state \<Rightarrow> state) \<Rightarrow> 'w sys \<Rightarrow> 'w sys" where
  "setState upd s = s\<lparr>state := upd (state s)\<rparr>"

definition setInformationMessage :: "string option \<Rightarrow> 'w sys \<Rightarrow> 'w sys" where
  "setInformationMessage message = setState (\<lambda>st. st\<lparr>informationMessage := message\<rparr>)"

definition setConfirmationMessage :: "string option \<Rightarrow> 'w sys \<Rightarrow> 'w sys" where
  "setConfirmationMessage message = setState (\<lambda>st. st\<lparr>confirmationMessage := message\<rparr>)"

definition setErrorMessage :: "string option \<Rightarrow> 'w sys \<Rightarrow> 'w sys" where
  "setErrorMessage message = setState (\<lambda>st. st\<lparr>errorMessage := message\<rparr>)"

text \<open>The guard \<open>address && validateAddress(address) === 3\<close>.\<close>

definition validAddress :: "'w collab \<Rightarrow> address \<Rightarrow> bool" where
  "validAddress c a = (a \<noteq> [] \<and> validateAddress c a = 3)"

section \<open>Operations\<close>

definition setContractAddress :: "'w collab \<Rightarrow> address \<Rightarrow> 'w sys \<Rightarrow> outcome \<times> 'w sys" where
  "setContractAddress c a s =
     (if a = contractAddress (state s) then (Returned, s)
      else if \<not> validAddress c a then
        (Returned, setErrorMessage
           (Some (''The provided address is not a valid contract address: '' @ a)) s)
      else
        let (cas, s1) = collab_call (GetSimilarContractAddresses a)
                          (utils_getSimilarContractAddresses c a) s;
            (sto, s2) = collab_call (GetContractStorage a) (utils_getContractStorage c a) s1;
            (bal, s3) = collab_call (GetBalance a) (utils_getBalance c a) s2
        in case sto of
             None \<Rightarrow> (Threw TypeError, s3)
           | Some st \<Rightarrow>
               let (als, s4) = collab_call (GetUserAliases (storage_users st))
                                 (utils_getUserAliases c (storage_users st)) s3;
                   (prs, s5) = collab_call (GetBigmapKeys (storage_proposals st))
                                 (utils_getBigmapKeys c (storage_proposals st)) s4;
                   (uvs, s6) = collab_call
                                 (GetUserVotes (userAddress (state s5)) (storage_votes st))
                                 (utils_getUserVotes c (userAddress (state s5)) (storage_votes st))
                                 s5
               in (Returned,
                   (setState (\<lambda>x. x\<lparr>contractAddresses := cas, contractAddress := a,
                                     storage := Some st, balance := bal, userAliases := als,
                                     proposals := prs, userVotes := uvs, contract := None\<rparr>) s6)
                   \<lparr>localStorage := Some a\<rparr>))"

text \<open>
  \<open>getContract\<close> returns the cached handle when there is one; otherwise it asks the
  toolkit and caches whatever came back, \<open>undefined\<close> included.
\<close>

definition getContract :: "'w collab \<Rightarrow> 'w sys \<Rightarrow> contract option \<times> 'w sys" where
  "getContract c s =
     (case contract (state s) of
        Some k \<Rightarrow> (Some k, s)
      | None \<Rightarrow>
          let (k, s1) = collab_call (GetContract (contractAddress (state s)))
                          (utils_getContract c (contractAddress (state s))) s
          in (k, setState (\<lambda>x. x\<lparr>contract := k\<rparr>) s1))"

text \<open>JavaScript truthiness of an optional string.\<close>

definition truthy :: "string option \<Rightarrow> bool" where
  "truthy x = (case x of None \<Rightarrow> False | Some v \<Rightarrow> v \<noteq> [])"

definition connectWallet :: "'w collab \<Rightarrow> 'w sys \<Rightarrow> outcome \<times> 'w sys" where
  "connectWallet c s =
     (let (granted, s1) = collab_call RequestPermissions (wallet_requestPermissions c) s;
          (ua, s2) = collab_call GetUserAddress (utils_getUserAddress c) s1;
          s3 = setState (\<lambda>x. x\<lparr>userAddress := ua\<rparr>) s2
      in case storage (state s3) of
           None \<Rightarrow> (Returned, s3)
         | Some st \<Rightarrow>
             if truthy ua then
               let (uvs, s4) = collab_call (GetUserVotes ua (storage_votes st))
                                 (utils_getUserVotes c ua (storage_votes st)) s3
               in (Returned, setState (\<lambda>x. x\<lparr>userVotes := uvs\<rparr>) s4)
             else (Returned, s3))"

definition disconnectWallet :: "'w collab \<Rightarrow> 'w sys \<Rightarrow> outcome \<times> 'w sys" where
  "disconnectWallet c s =
     (let (u, s1) = collab_call ClearActiveAccount (wallet_clearActiveAccount c) s
      in (Returned,
          setState (\<lambda>x. x\<lparr>userAddress := None, userVotes := None, contract := None\<rparr>) s1))"

text \<open>
  \<open>confirmOperation\<close>: a failed confirmation is caught and logged, so the answer of the
  wait is not used.
\<close>

definition confirmOperation :: "'w collab \<Rightarrow> operation option \<Rightarrow> 'w sys \<Rightarrow> 'w sys" where
  "confirmOperation c operation s =
     (case operation of
        None \<Rightarrow> s
      | Some opn \<Rightarrow>
          let s1 = setInformationMessage (Some ''Waiting for the operation to be confirmed...'') s;
              (confirmed, s2) = collab_call (Confirmation opn) (op_confirmation c opn) s1
          in setInformationMessage None s2)"

text \<open>
  \<open>createProposal\<close>: a failed send is caught and logged and leaves \<open>operation\<close> undefined.
  Reading \<open>this.state.storage.proposals\<close> with no storage loaded is a TypeError.
\<close>

definition createProposal ::
  "'w collab \<Rightarrow> contract \<Rightarrow> entry_call \<Rightarrow> 'w sys \<Rightarrow> outcome \<times> 'w sys" where
  "createProposal c k parameters s =
     (let (operation, s1) = collab_call (Send k parameters) (entry_send c k parameters) s;
          s2 = confirmOperation c operation s1
      in case storage (state s2) of
           None \<Rightarrow> (Threw TypeError, s2)
         | Some st \<Rightarrow>
             let (prs, s3) = collab_call (GetBigmapKeys (storage_proposals st))
                               (utils_getBigmapKeys c (storage_proposals st)) s2
             in (Returned, setState (\<lambda>x. x\<lparr>proposals := prs\<rparr>) s3))"

text \<open>
  The proposal operations call \<open>createProposal\<close> without awaiting or returning it:
  their own promise is fulfilled whatever \<open>createProposal\<close> does, and a TypeError in it
  is an unhandled rejection. The model runs the detached call to completion, keeps its
  effects and reports \<open>Returned\<close> for the operation.
\<close>

definition createTextProposal :: "'w collab \<Rightarrow> string option \<Rightarrow> 'w sys \<Rightarrow> outcome \<times> 'w sys" where
  "createTextProposal c ipfsPath s =
     (case (if truthy ipfsPath then ipfsPath else None) of
        None \<Rightarrow>
          (Returned, setErrorMessage
             (Some ''The text proposal needs to be uploaded first to IPFS'') s)
      | Some path \<Rightarrow>
          let (k, s1) = getContract c s
          in case k of
               None \<Rightarrow> (Returned, s1)
             | Some k' \<Rightarrow>
                 (Returned, snd (createProposal c k' (Text_proposal (utils_stringToHex c (''ipfs://'' @ path))) s1)))"

text \<open>
  Amounts and the balance are mutez counts: integer-valued JavaScript numbers, that is,
  doubles. An addition of two of them is the exact sum rounded to a 53-bit significand,
  to the nearest value and on a tie to the even significand; a rounded magnitude at or
  beyond \<open>2 ^ 1024\<close> is an infinity. From finite amounts the running total is finite or
  infinite, never NaN.
\<close>

datatype number = Fin int | PosInfinity | NegInfinity

text \<open>How many low bits of a magnitude do not fit the significand.\<close>

function excess_bits :: "nat \<Rightarrow> nat" where
  "excess_bits n = (if n < 2 ^ 53 then 0 else Suc (excess_bits (n div 2)))"
  by pat_completeness auto
termination
  by (relation "measure (\<lambda>n. n)") auto

definition round_magnitude :: "nat \<Rightarrow> nat" where
  "round_magnitude n =
     (let e = excess_bits n; q = n div 2 ^ e; r = n mod 2 ^ e
      in if e = 0 then n
         else if 2 * r > 2 ^ e \<or> (2 * r = 2 ^ e \<and> odd q) then (q + 1) * 2 ^ e
         else q * 2 ^ e)"

definition to_double :: "int \<Rightarrow> number" where
  "to_double x =
     (let m = int (round_magnitude (nat \<bar>x\<bar>))
      in if m \<ge> 2 ^ 1024 then (if x < 0 then NegInfinity else PosInfinity)
         else Fin (if x < 0 then - m else m))"

text \<open>\<open>totalAmount += transfer.amount\<close>.\<close>

fun js_add :: "number \<Rightarrow> int \<Rightarrow> number" where
  "js_add (Fin a) x = to_double (a + x)"
| "js_add PosInfinity x = PosInfinity"
| "js_add NegInfinity x = NegInfinity"

text \<open>
  \<open>totalAmount > this.state.balance\<close>: false when the balance is \<open>undefined\<close>.
\<close>

fun js_greater :: "number \<Rightarrow> int option \<Rightarrow> bool" where
  "js_greater n None = False"
| "js_greater (Fin a) (Some b) = (a > b)"
| "js_greater PosInfinity (Some b) = True"
| "js_greater NegInfinity (Some b) = False"

text \<open>
  The loop of \<open>createTransferMutezProposal\<close>: the first invalid destination ends it
  (\<open>Inl\<close>), otherwise the amounts are accumulated into \<open>totalAmount\<close>.
\<close>

fun sumTransfers :: "'w collab \<Rightarrow> transfer list \<Rightarrow> number \<Rightarrow> address + number" where
  "sumTransfers c [] totalAmount = Inr totalAmount"
| "sumTransfers c (t # ts) totalAmount =
     (if \<not> validAddress c (destination t) then Inl (destination t)
      else sumTransfers c ts (js_add totalAmount (amount t)))"

definition createTransferMutezProposal ::
  "'w collab \<Rightarrow> transfer list \<Rightarrow> 'w sys \<Rightarrow> outcome \<times> 'w sys" where
  "createTransferMutezProposal c transfers s =
     (case sumTransfers c transfers (Fin 0) of
        Inl d \<Rightarrow>
          (Returned, setErrorMessage
             (Some (''The provided address is not a valid tezos address: '' @ d)) s)
      | Inr totalAmount \<Rightarrow>
          if js_greater totalAmount (balance (state s)) then
            (Returned, setErrorMessage
               (Some ''The total amount of tez to transfer is larger than the current contract balance'') s)
          else
            let (k, s1) = getContract c s
            in case k of
                 None \<Rightarrow> (Returned, s1)
               | Some k' \<Rightarrow>
                   (Returned, snd (createProposal c k' (Transfer_mutez_proposal transfers) s1)))"

text \<open>The address checks of the token proposal and of \<open>originate\<close>: the first invalid one.\<close>

fun firstInvalid :: "'w collab \<Rightarrow> address list \<Rightarrow> address option" where
  "firstInvalid c [] = None"
| "firstInvalid c (a # as) = (if \<not> validAddress c a then Some a else firstInvalid c as)"

definition createTransferTokenProposal ::
  "'w collab \<Rightarrow> address \<Rightarrow> nat \<Rightarrow> transfer list \<Rightarrow> 'w sys \<Rightarrow> outcome \<times> 'w sys" where
  "createTransferTokenProposal c tokenAddress tokenId transfers s =
     (if \<not> validAddress c tokenAddress then
        (Returned, setErrorMessage
           (Some (''The provided token contract address is not a valid tezos address: ''
                  @ tokenAddress)) s)
      else case firstInvalid c (map destination transfers) of
          Some d \<Rightarrow>
            (Returned, setErrorMessage
               (Some (''The provided address is not a valid tezos address: '' @ d)) s)
        | None \<Rightarrow>
            let (k, s1) = getContract c s
            in case k of
                 None \<Rightarrow> (Returned, s1)
               | Some k' \<Rightarrow>
                   (Returned, snd (createProposal c k' (Transfer_token_proposal tokenAddress tokenId transfers) s1)))"

text \<open>
  \<open>minimumVotes > this.state.storage?.users.length\<close> compares with \<open>undefined\<close>, hence is
  false, when no storage is loaded.
\<close>

definition createMinimumVotesProposal :: "'w collab \<Rightarrow> int \<Rightarrow> 'w sys \<Rightarrow> outcome \<times> 'w sys" where
  "createMinimumVotesProposal c minimumVotes s =
     (if minimumVotes \<le> 0 \<or>
         (case storage (state s) of
            None \<Rightarrow> False
          | Some st \<Rightarrow> minimumVotes > int (length (storage_users st))) then
        (Returned, setErrorMessage
           (Some ''The minimum votes need to be higher than 0 and less or equal to the number of multisig users'') s)
      else
        let (k, s1) = getContract c s
        in case k of
             None \<Rightarrow> (Returned, s1)
           | Some k' \<Rightarrow> (Returned, snd (createProposal c k' (Minimum_votes_proposal minimumVotes) s1)))"

definition createExpirationTimeProposal :: "'w collab \<Rightarrow> int \<Rightarrow> 'w sys \<Rightarrow> outcome \<times> 'w sys" where
  "createExpirationTimeProposal c expirationTime s =
     (if expirationTime \<le> 0 then
        (Returned, setErrorMessage (Some ''The expiration time needs to be at least one day'') s)
      else
        let (k, s1) = getContract c s
        in case k of
             None \<Rightarrow> (Returned, s1)
           | Some k' \<Rightarrow> (Returned, snd (createProposal c k' (Expiration_time_proposal expirationTime) s1)))"

text \<open>\<open>this.state.storage?.users.includes(a)\<close> is \<open>undefined\<close>, hence falsy, with no storage.\<close>

definition usersInclude :: "storage option \<Rightarrow> address \<Rightarrow> bool" where
  "usersInclude sto a = (case sto of None \<Rightarrow> False | Some st \<Rightarrow> a \<in> set (storage_users st))"

definition createAddUserProposal :: "'w collab \<Rightarrow> address \<Rightarrow> 'w sys \<Rightarrow> outcome \<times> 'w sys" where
  "createAddUserProposal c a s =
     (if \<not> validAddress c a then
        (Returned, setErrorMessage
           (Some (''The provided address is not a valid tezos address: '' @ a)) s)
      else if usersInclude (storage (state s)) a then
        (Returned, setErrorMessage (Some ''The provided address is already a multisig user'') s)
      else
        let (k, s1) = getContract c s
        in case k of
             None \<Rightarrow> (Returned, s1)
           | Some k' \<Rightarrow> (Returned, snd (createProposal c k' (Add_user_proposal a) s1)))"

definition createRemoveUserProposal :: "'w collab \<Rightarrow> address \<Rightarrow> 'w sys \<Rightarrow> outcome \<times> 'w sys" where
  "createRemoveUserProposal c a s =
     (if \<not> validAddress c a then
        (Returned, setErrorMessage
           (Some (''The provided address is not a valid tezos address: '' @ a)) s)
      else if \<not> usersInclude (storage (state s)) a then
        (Returned, setErrorMessage (Some ''The provided address is not a multisig user'') s)
      else
        let (k, s1) = getContract c s
        in case k of
             None \<Rightarrow> (Returned, s1)
           | Some k' \<Rightarrow> (Returned, snd (createProposal c k' (Remove_user_proposal a) s1)))"

text \<open>The parser throws on malformed code: \<open>None\<close>.\<close>

definition createLambdaFunctionProposal ::
  "'w collab \<Rightarrow> string \<Rightarrow> 'w sys \<Rightarrow> outcome \<times> 'w sys" where
  "createLambdaFunctionProposal c michelineCode s =
     (case parseMichelineExpression c michelineCode of
        None \<Rightarrow>
          (Returned, setErrorMessage
             (Some ''The provided lambda function Michelson code is not correct'') s)
      | Some lambdaFunction \<Rightarrow>
          let (k, s1) = getContract c s
          in case k of
               None \<Rightarrow> (Returned, s1)
             | Some k' \<Rightarrow> (Returned, snd (createProposal c k' (Lambda_function_proposal lambdaFunction) s1)))"

definition voteProposal :: "'w collab \<Rightarrow> nat \<Rightarrow> bool \<Rightarrow> 'w sys \<Rightarrow> outcome \<times> 'w sys" where
  "voteProposal c proposalId approval s =
     (let (k, s1) = getContract c s
      in case k of
           None \<Rightarrow> (Returned, s1)
         | Some k' \<Rightarrow>
             let (operation, s2) = collab_call (Send k' (Vote_proposal proposalId approval))
                                     (entry_send c k' (Vote_proposal proposalId approval)) s1;
                 s3 = confirmOperation c operation s2
             in case storage (state s3) of
                  None \<Rightarrow> (Threw TypeError, s3)
                | Some st \<Rightarrow>
                    let (prs, s4) = collab_call (GetBigmapKeys (storage_proposals st))
                                      (utils_getBigmapKeys c (storage_proposals st)) s3;
                        (uvs, s5) = collab_call
                                      (GetUserVotes (userAddress (state s4)) (storage_votes st))
                                      (utils_getUserVotes c (userAddress (state s4))
                                         (storage_votes st)) s4
                    in (Returned, setState (\<lambda>x. x\<lparr>proposals := prs, userVotes := uvs\<rparr>) s5))"

definition executeProposal :: "'w collab \<Rightarrow> nat \<Rightarrow> 'w sys \<Rightarrow> outcome \<times> 'w sys" where
  "executeProposal c proposalId s =
     (let (k, s1) = getContract c s
      in case k of
           None \<Rightarrow> (Returned, s1)
         | Some k' \<Rightarrow>
             let (operation, s2) = collab_call (Send k' (Execute_proposal proposalId))
                                     (entry_send c k' (Execute_proposal proposalId)) s1;
                 s3 = confirmOperation c operation s2;
                 (sto, s4) = collab_call (GetContractStorage (contractAddress (state s3)))
                               (utils_getContractStorage c (contractAddress (state s3))) s3;
                 (bal, s5) = collab_call (GetBalance (contractAddress (state s4)))
                               (utils_getBalance c (contractAddress (state s4))) s4
             in case sto of
                  None \<Rightarrow> (Threw TypeError, s5)
                | Some st \<Rightarrow>
                    let (als, s6) = collab_call (GetUserAliases (storage_users st))
                                      (utils_getUserAliases c (storage_users st)) s5;
                        (prs, s7) = collab_call (GetBigmapKeys (storage_proposals st))
                                      (utils_getBigmapKeys c (storage_proposals st)) s6
                    in (Returned,
                        setState (\<lambda>x. x\<lparr>storage := Some st, balance := bal,
                                         userAliases := als, proposals := prs\<rparr>) s7))"

definition uploadMetadataToIpfs ::
  "'w collab \<Rightarrow> string \<Rightarrow> bool \<Rightarrow> 'w sys \<Rightarrow> string option \<times> 'w sys" where
  "uploadMetadataToIpfs c metadata displayUploadInformation s =
     (let s0 = (if displayUploadInformation
                then setInformationMessage (Some ''Uploading the json metadata to ipfs...'') s
                else s);
          (added, s1) = collab_call (IpfsAdd (JsonMetadata metadata))
                          (ipfs_add c (JsonMetadata metadata)) s0
      in (added, if displayUploadInformation then setInformationMessage None s1 else s1))"

definition uploadFileToIpfs ::
  "'w collab \<Rightarrow> upload_file option \<Rightarrow> bool \<Rightarrow> 'w sys \<Rightarrow> string option \<times> 'w sys" where
  "uploadFileToIpfs c file' displayUploadInformation s =
     (case file' of
        None \<Rightarrow>
          (None, setErrorMessage (Some ''A file needs to be loaded before uploading to IPFS'') s)
      | Some f \<Rightarrow>
          let s0 = (if displayUploadInformation
                    then setInformationMessage
                           (Some (''Uploading '' @ file_name f @ '' to ipfs...'')) s
                    else s);
              (added, s1) = collab_call (IpfsAdd (RawFile f)) (ipfs_add c (RawFile f)) s0
          in (added, if displayUploadInformation then setInformationMessage None s1 else s1))"

record origination_parameters =
  name :: string
  users :: "address list"
  minimumVotes :: int
  expirationTime :: int

text \<open>
  \<open>originate\<close>: in its address loop the code calls \<open>this.setErrorMessage\<close>, which the
  component does not have (the setter is \<open>this.state.setErrorMessage\<close>), so an invalid
  user address ends the operation with a TypeError. The metadata object is the bundled
  JSON with its name replaced, represented by that name; a missing upload path is
  concatenated as the text \<open>undefined\<close>.
\<close>

definition originate :: "'w collab \<Rightarrow> origination_parameters \<Rightarrow> 'w sys \<Rightarrow> outcome \<times> 'w sys" where
  "originate c parameters s =
     (case firstInvalid c (users parameters) of
        Some invalidUser \<Rightarrow> (Threw TypeError, s)
      | None \<Rightarrow>
          if minimumVotes parameters \<le> 0
             \<or> minimumVotes parameters > int (length (users parameters)) then
            (Returned, setErrorMessage
               (Some ''The minimum votes need to be higher than 0 and less or equal to the number of multisig users'') s)
          else if expirationTime parameters \<le> 0 then
            (Returned, setErrorMessage
               (Some ''The expiration time needs to be at least one day'') s)
          else
            let (metadataIpfsPath, s1) = uploadMetadataToIpfs c (name parameters) False s;
                sto = \<lparr>o_counter = 0,
                       o_expiration_time = expirationTime parameters,
                       o_metadata = [([], utils_stringToHex c
                          (''ipfs://'' @ (case metadataIpfsPath of
                                            None \<Rightarrow> ''undefined'' | Some p \<Rightarrow> p)))],
                       o_minimum_votes = minimumVotes parameters,
                       o_proposals = [],
                       o_users = users parameters,
                       o_votes = []\<rparr>;
                (operation, s2) = collab_call (OriginateSend sto) (originate_send c sto) s1;
                s3 = setInformationMessage
                       (Some ''Waiting for the operation to be confirmed...'') s2;
                s4 = (case operation of
                        None \<Rightarrow> s3
                      | Some opn \<Rightarrow>
                          snd (collab_call (OriginationOperation opn)
                                 (op_originationOperation c opn) s3))
            in (Returned, setInformationMessage None s4))"

text \<open>\<open>loadInformation\<close> collects one \<open>newState\<close> object and publishes it at the end.\<close>

definition loadInformation :: "'w collab \<Rightarrow> 'w sys \<Rightarrow> outcome \<times> 'w sys" where
  "loadInformation c s =
     (let (ua, s1) = collab_call GetUserAddress (utils_getUserAddress c) s;
          (cas, s2) = collab_call (GetSimilarContractAddresses (contractAddress (state s1)))
                        (utils_getSimilarContractAddresses c (contractAddress (state s1))) s1;
          (sto, s3) = collab_call (GetContractStorage (contractAddress (state s2)))
                        (utils_getContractStorage c (contractAddress (state s2))) s2;
          (bal, s4) = collab_call (GetBalance (contractAddress (state s3)))
                        (utils_getBalance c (contractAddress (state s3))) s3;
          base = (\<lambda>x. x\<lparr>userAddress := ua, contractAddresses := cas, storage := sto,
                         balance := bal\<rparr>)
      in case sto of
           None \<Rightarrow> (Returned, setState base s4)
         | Some st \<Rightarrow>
             let (als, s5) = collab_call (GetUserAliases (storage_users st))
                               (utils_getUserAliases c (storage_users st)) s4;
                 (prs, s6) = collab_call (GetBigmapKeys (storage_proposals st))
                               (utils_getBigmapKeys c (storage_proposals st)) s5;
                 derived = (\<lambda>x. (base x)\<lparr>userAliases := als, proposals := prs\<rparr>)
             in if truthy ua then
                  let (uvs, s7) = collab_call (GetUserVotes ua (storage_votes st))
                                    (utils_getUserVotes c ua (storage_votes st)) s6
                  in (Returned, setState (\<lambda>x. (derived x)\<lparr>userVotes := uvs\<rparr>) s7)
                else (Returned, setState derived s6))"

section \<open>The controller as a transition system\<close>

text \<open>
  The snapshot the constructor builds: everything absent except the contract address,
  which is \<open>window.localStorage.multisigContractAddress || DEFAULT_CONTRACT_ADDRESS\<close>.
\<close>

definition initial_state :: "address option \<Rightarrow> address \<Rightarrow> state" where
  "initial_state persisted default_address =
     \<lparr>userAddress = None, contractAddresses = None,
      contractAddress = (case persisted of
                           None \<Rightarrow> default_address
                         | Some a \<Rightarrow> if a \<noteq> [] then a else default_address),
      storage = None, balance = None, userAliases = None, proposals = None,
      userVotes = None, contract = None, informationMessage = None,
      confirmationMessage = None, errorMessage = None\<rparr>"

definition initial_sys :: "address option \<Rightarrow> address \<Rightarrow> 'w \<Rightarrow> 'w sys" where
  "initial_sys persisted default_address w =
     \<lparr>state = initial_state persisted default_address, localStorage = persisted,
      world = w, calls = []\<rparr>"

text \<open>Everything the context value offers to the components, and the mount effect.\<close>

datatype action =
    SetInformationMessage "string option"
  | SetConfirmationMessage "string option"
  | SetErrorMessage "string option"
  | SetContractAddress address
  | GetContractHandle
  | ConnectWallet
  | DisconnectWallet
  | CreateTextProposal "string option"
  | CreateTransferMutezProposal "transfer list"
  | CreateTransferTokenProposal address nat "transfer list"
  | CreateMinimumVotesProposal int
  | CreateExpirationTimeProposal int
  | CreateAddUserProposal address
  | CreateRemoveUserProposal address
  | CreateLambdaFunctionProposal string
  | VoteProposal nat bool
  | ExecuteProposal nat
  | Originate origination_parameters
  | UploadMetadataToIpfs string bool
  | UploadFileToIpfs "upload_file option" bool
  | LoadInformation

fun perform :: "'w collab \<Rightarrow> action \<Rightarrow> 'w sys \<Rightarrow> outcome \<times> 'w sys" where
  "perform c (SetInformationMessage m) s = (Returned, setInformationMessage m s)"
| "perform c (SetConfirmationMessage m) s = (Returned, setConfirmationMessage m s)"
| "perform c (SetErrorMessage m) s = (Returned, setErrorMessage m s)"
| "perform c (SetContractAddress a) s = setContractAddress c a s"
| "perform c GetContractHandle s = (Returned, snd (getContract c s))"
| "perform c ConnectWallet s = connectWallet c s"
| "perform c DisconnectWallet s = disconnectWallet c s"
| "perform c (CreateTextProposal p) s = createTextProposal c p s"
| "perform c (CreateTransferMutezProposal ts) s = createTransferMutezProposal c ts s"
| "perform c (CreateTransferTokenProposal a i ts) s = createTransferTokenProposal c a i ts s"
| "perform c (CreateMinimumVotesProposal v) s = createMinimumVotesProposal c v s"
| "perform c (CreateExpirationTimeProposal v) s = createExpirationTimeProposal c v s"
| "perform c (CreateAddUserProposal a) s = createAddUserProposal c a s"
| "perform c (CreateRemoveUserProposal a) s = createRemoveUserProposal c a s"
| "perform c (CreateLambdaFunctionProposal m) s = createLambdaFunctionProposal c m s"
| "perform c (VoteProposal i b) s = voteProposal c i b s"
| "perform c (ExecuteProposal i) s = executeProposal c i s"
| "perform c (Originate p) s = originate c p s"
| "perform c (UploadMetadataToIpfs m d) s = (Returned, snd (uploadMetadataToIpfs c m d s))"
| "perform c (UploadFileToIpfs f d) s = (Returned, snd (uploadFileToIpfs c f d s))"
| "perform c LoadInformation s = loadInformation c s"

text \<open>Running a sequence of actions, each to completion, from a system state.\<close>

fun run :: "'w collab \<Rightarrow> action list \<Rightarrow> 'w sys \<Rightarrow> 'w sys" where
  "run c [] s = s"
| "run c (a # as) s = run c as (snd (perform c a s))"

text \<open>The operations that resolve the contract handle before calling an entry point.\<close>

fun contract_action :: "action \<Rightarrow> bool" where
  "contract_action (CreateTextProposal p) = True"
| "contract_action (CreateTransferMutezProposal ts) = True"
| "contract_action (CreateTransferTokenProposal a i ts) = True"
| "contract_action (CreateMinimumVotesProposal v) = True"
| "contract_action (CreateExpirationTimeProposal v) = True"
| "contract_action (CreateAddUserProposal a) = True"
| "contract_action (CreateRemoveUserProposal a) = True"
| "contract_action (CreateLambdaFunctionProposal m) = True"
| "contract_action (VoteProposal i b) = True"
| "contract_action (ExecuteProposal i) = True"
| "contract_action other = False"

text \<open>
  The tail every proposal operation shares after its validation: resolve the contract
  handle, return if there is none, otherwise hand the entry point to \<open>createProposal\<close>.
\<close>

abbreviation via_contract :: "'w collab \<Rightarrow> entry_call \<Rightarrow> 'w sys \<Rightarrow> outcome \<times> 'w sys" where
  "via_contract c e s \<equiv>
     (let (k, s1) = getContract c s
      in case k of None \<Rightarrow> (Returned, s1) | Some k' \<Rightarrow> (Returned, snd (createProposal c k' e s1)))"



section \<open>Fetch generations\<close>

text \<open>
  A chain query is a read when it leaves the outside world as it found it. Under
  read-only queries the world at the end of a refresh is the generation all of its
  fetches saw.
\<close>

definition reads_only :: "'w collab \<Rightarrow> bool" where
  "reads_only c =
     ((\<forall>a w. snd (utils_getSimilarContractAddresses c a w) = w) \<and>
      (\<forall>a w. snd (utils_getContractStorage c a w) = w) \<and>
      (\<forall>a w. snd (utils_getBalance c a w) = w) \<and>
      (\<forall>us w. snd (utils_getUserAliases c us w) = w) \<and>
      (\<forall>b w. snd (utils_getBigmapKeys c b w) = w) \<and>
      (\<forall>u b w. snd (utils_getUserVotes c u b w) = w))"

text \<open>
  The storage with balance, aliases and proposals of the snapshot \<open>x\<close> are the answers
  of generation \<open>w\<close>.
\<close>

definition storage_view_at :: "'w collab \<Rightarrow> 'w \<Rightarrow> state \<Rightarrow> bool" where
  "storage_view_at c w x =
     (case storage x of
        None \<Rightarrow> False
      | Some st \<Rightarrow>
          fst (utils_getContractStorage c (contractAddress x) w) = Some st \<and>
          balance x = fst (utils_getBalance c (contractAddress x) w) \<and>
          userAliases x = fst (utils_getUserAliases c (storage_users st) w) \<and>
          proposals x = fst (utils_getBigmapKeys c (storage_proposals st) w))"

text \<open>The identity's vote slice of the snapshot \<open>x\<close> is the answer of generation \<open>w\<close>.\<close>

definition votes_at :: "'w collab \<Rightarrow> 'w \<Rightarrow> state \<Rightarrow> bool" where
  "votes_at c w x =
     (case storage x of
        None \<Rightarrow> False
      | Some st \<Rightarrow>
          userVotes x = fst (utils_getUserVotes c (userAddress x) (storage_votes st) w))"

section \<open>An example chain\<close>

text \<open>
  The world is the number of operations the chain has included; every answer of the
  indexer carries that number, so the generation of each snapshot field can be read
  off. A sent operation is included at once.
\<close>

definition example_storage :: "nat \<Rightarrow> storage" where
  "example_storage g =
     \<lparr>storage_counter = g, storage_expiration_time = 7, storage_minimum_votes = 2,
      storage_proposals = 10,
      storage_users = [''tz1alice'', ''tz1bob'', ''tz1carol''],
      storage_votes = 11\<rparr>"

definition example_chain :: "nat collab" where
  "example_chain =
     \<lparr>validateAddress =
        (\<lambda>a. if a \<in> {''tz1alice'', ''tz1bob'', ''tz1carol'', ''tz1dave'',
                        ''KT1multisig'', ''KT1other''} then 3 else 0),
      utils_stringToHex = (\<lambda>t. t),
      parseMichelineExpression = (\<lambda>t. if t = ''{ DROP }'' then Some t else None),
      utils_getSimilarContractAddresses = (\<lambda>a w. (Some [a], w)),
      utils_getContractStorage = (\<lambda>a w. (Some (example_storage w), w)),
      utils_getBalance = (\<lambda>a w. (Some (5000000 + int w), w)),
      utils_getUserAliases = (\<lambda>us w. (Some [], w)),
      utils_getBigmapKeys = (\<lambda>b w. (Some [(w, ''proposal'')], w)),
      utils_getUserVotes =
        (\<lambda>u b w. (case u of None \<Rightarrow> None | Some v \<Rightarrow> Some [(w, True)], w)),
      utils_getContract = (\<lambda>a w. (Some a, w)),
      utils_getUserAddress = (\<lambda>w. (Some ''tz1alice'', w)),
      wallet_requestPermissions = (\<lambda>w. (True, w)),
      wallet_clearActiveAccount = (\<lambda>w. ((), w)),
      entry_send = (\<lambda>k e w. (Some w, Suc w)),
      op_confirmation = (\<lambda>opn w. (True, w)),
      ipfs_add = (\<lambda>p w. (Some ''Qm'', w)),
      originate_send = (\<lambda>sto w. (Some w, Suc w)),
      op_originationOperation = (\<lambda>opn w. (Some ''KT1new'', w))\<rparr>"

text \<open>The same chain behind a wallet that refuses every operation it is asked to send.\<close>

definition refusing_wallet :: "nat collab" where
  "refusing_wallet = example_chain\<lparr>entry_send := (\<lambda>k e w. (None, w))\<rparr>"

text \<open>The same chain where the confirmation wait of a sent operation fails.\<close>

definition unconfirmed_chain :: "nat collab" where
  "unconfirmed_chain = example_chain\<lparr>op_confirmation := (\<lambda>opn w. (False, w))\<rparr>"

text \<open>A wallet with no active account whose user rejects the permission request.\<close>

definition rejecting_wallet :: "nat collab" where
  "rejecting_wallet =
     example_chain\<lparr>wallet_requestPermissions := (\<lambda>w. (False, w)),
                   utils_getUserAddress := (\<lambda>w. (None, w))\<rparr>"

text \<open>A node that cannot resolve the contract handle.\<close>

definition unresolved_contract :: "nat collab" where
  "unresolved_contract = example_chain\<lparr>utils_getContract := (\<lambda>a w. (None, w))\<rparr>"

text \<open>The freshly constructed controller on the example chain, and after its mount.\<close>

definition example_start :: "nat sys" where
  "example_start = initial_sys None ''KT1multisig'' 0"

definition example_loaded :: "nat sys" where
  "example_loaded = snd (loadInformation example_chain example_start)"

text \<open>
  The controller mounted while the wallet has no active account: storage and proposals
  are loaded, the identity is absent.
\<close>

definition anonymous_loaded :: "nat sys" where
  "anonymous_loaded = snd (loadInformation rejecting_wallet example_start)"

text \<open>A wallet that rejects the permission request while it still has an active account.\<close>

definition account_keeping_wallet :: "nat collab" where
  "account_keeping_wallet = example_chain\<lparr>wallet_requestPermissions := (\<lambda>w. (False, w))\<rparr>"




section \<open>Basic facts about the primitive steps\<close>

lemma collab_call_simps [simp]:
  "fst (collab_call lbl f s) = fst (f (world s))"
  "state (snd (collab_call lbl f s)) = state s"
  "localStorage (snd (collab_call lbl f s)) = localStorage s"
  "world (snd (collab_call lbl f s)) = snd (f (world s))"
  "calls (snd (collab_call lbl f s)) = calls s @ [lbl]"
  by (simp_all add: collab_call_def)

lemma setState_simps [simp]:
  "state (setState upd s) = upd (state s)"
  "localStorage (setState upd s) = localStorage s"
  "world (setState upd s) = world s"
  "calls (setState upd s) = calls s"
  by (simp_all add: setState_def)

lemma setErrorMessage_simps [simp]:
  "state (setErrorMessage m s) = (state s)\<lparr>errorMessage := m\<rparr>"
  "localStorage (setErrorMessage m s) = localStorage s"
  "world (setErrorMessage m s) = world s"
  "calls (setErrorMessage m s) = calls s"
  by (simp_all add: setErrorMessage_def)

lemma setInformationMessage_simps [simp]:
  "state (setInformationMessage m s) = (state s)\<lparr>informationMessage := m\<rparr>"
  "localStorage (setInformationMessage m s) = localStorage s"
  "world (setInformationMessage m s) = world s"
  "calls (setInformationMessage m s) = calls s"
  by (simp_all add: setInformationMessage_def)

lemma setConfirmationMessage_simps [simp]:
  "state (setConfirmationMessage m s) = (state s)\<lparr>confirmationMessage := m\<rparr>"
  "localStorage (setConfirmationMessage m s) = localStorage s"
  "world (setConfirmationMessage m s) = world s"
  "calls (setConfirmationMessage m s) = calls s"
  by (simp_all add: setConfirmationMessage_def)

lemma getContract_simps:
  "state (snd (getContract c s)) =
     (case contract (state s) of
        Some k \<Rightarrow> state s
      | None \<Rightarrow> (state s)\<lparr>contract :=
                   fst (utils_getContract c (contractAddress (state s)) (world s))\<rparr>)"
  "calls (snd (getContract c s)) =
     (case contract (state s) of
        Some k \<Rightarrow> calls s
      | None \<Rightarrow> calls s @ [GetContract (contractAddress (state s))])"
  "fst (getContract c s) =
     (case contract (state s) of
        Some k \<Rightarrow> Some k
      | None \<Rightarrow> fst (utils_getContract c (contractAddress (state s)) (world s)))"
  "localStorage (snd (getContract c s)) = localStorage s"
  by (simp_all add: getContract_def split_beta split: option.splits)

lemma confirmOperation_simps:
  "storage (state (confirmOperation c opn s)) = storage (state s)"
  "errorMessage (state (confirmOperation c opn s)) = errorMessage (state s)"
  "confirmationMessage (state (confirmOperation c opn s)) = confirmationMessage (state s)"
  "informationMessage (state (confirmOperation c opn s)) =
     (case opn of None \<Rightarrow> informationMessage (state s) | Some x \<Rightarrow> None)"
  "calls (confirmOperation c opn s) =
     (case opn of None \<Rightarrow> calls s | Some x \<Rightarrow> calls s @ [Confirmation x])"
  by (simp_all add: confirmOperation_def split_beta Let_def split: option.splits)

lemma createProposal_calls:
  "\<exists>rest. calls (snd (createProposal c k e s)) = calls s @ Send k e # rest"
  by (simp add: createProposal_def split_beta Let_def confirmOperation_simps
      split: option.splits)

lemma createProposal_errorMessage:
  "errorMessage (state (snd (createProposal c k e s))) = errorMessage (state s)"
  by (simp add: createProposal_def split_beta Let_def confirmOperation_simps
      split: option.splits)

lemma via_contract_errorMessage:
  "errorMessage (state (snd (via_contract c e s))) = errorMessage (state s)"
  by (simp add: split_beta Let_def createProposal_errorMessage getContract_simps
      split: option.splits)

text \<open>
  Once validation has passed, the first collaborator contacted is the toolkit (to
  resolve the handle) or, with a cached handle, the entry point itself.
\<close>

lemma via_contract_calls:
  "\<exists>rest. calls (snd (via_contract c e s)) =
     calls s @ (case contract (state s) of
                  None \<Rightarrow> GetContract (contractAddress (state s))
                | Some k \<Rightarrow> Send k e) # rest"
proof (cases "contract (state s)")
  case None
  show ?thesis
  proof (cases "fst (utils_getContract c (contractAddress (state s)) (world s))")
    case unresolved: None
    with None show ?thesis by (simp add: split_beta Let_def getContract_simps)
  next
    case (Some k)
    obtain rest where "calls (snd (createProposal c k e (snd (getContract c s)))) =
        calls (snd (getContract c s)) @ Send k e # rest"
      using createProposal_calls by blast
    with None Some show ?thesis by (simp add: split_beta Let_def getContract_simps)
  qed
next
  case (Some k)
  obtain rest where "calls (snd (createProposal c k e (snd (getContract c s)))) =
      calls (snd (getContract c s)) @ Send k e # rest"
    using createProposal_calls by blast
  with Some show ?thesis by (simp add: split_beta Let_def getContract_simps)
qed

lemma via_contract_unresolved:
  assumes "contract (state s) = None"
    and "fst (utils_getContract c (contractAddress (state s)) (world s)) = None"
  shows "fst (via_contract c e s) = Returned"
    and "state (snd (via_contract c e s)) = state s"
    and "calls (snd (via_contract c e s)) = calls s @ [GetContract (contractAddress (state s))]"
  using assms by (simp_all add: split_beta Let_def getContract_simps)

declare excess_bits.simps [simp del]





lemma sumTransfers_Inl:
  "sumTransfers c ts acc = Inl d \<Longrightarrow> d \<in> destination ` set ts \<and> \<not> validAddress c d"
  by (induction ts arbitrary: acc) (auto split: if_splits)

lemma sumTransfers_invalid:
  "t \<in> set ts \<Longrightarrow> \<not> validAddress c (destination t) \<Longrightarrow> \<exists>d. sumTransfers c ts acc = Inl d"
  by (induction ts arbitrary: acc) (auto split: if_splits)

section \<open>The example chain after the mount\<close>

lemma example_loaded_eq:
  "example_loaded =
     \<lparr>state = \<lparr>userAddress = Some ''tz1alice'', contractAddresses = Some [''KT1multisig''],
               contractAddress = ''KT1multisig'', storage = Some (example_storage 0),
               balance = Some 5000000, userAliases = Some [],
               proposals = Some [(0, ''proposal'')], userVotes = Some [(0, True)],
               contract = None, informationMessage = None, confirmationMessage = None,
               errorMessage = None\<rparr>,
      localStorage = None, world = 0,
      calls = [GetUserAddress, GetSimilarContractAddresses ''KT1multisig'',
               GetContractStorage ''KT1multisig'', GetBalance ''KT1multisig'',
               GetUserAliases [''tz1alice'', ''tz1bob'', ''tz1carol''],
               GetBigmapKeys 10, GetUserVotes (Some ''tz1alice'') 11]\<rparr>"
  by (simp add: example_loaded_def example_start_def initial_sys_def initial_state_def
      loadInformation_def example_chain_def collab_call_def setState_def truthy_def
      Let_def split_beta example_storage_def)

section \<open>Selecting the current contract again\<close>

text \<open>
  C7. Calling \<open>setContractAddress\<close> with the address that is already selected is a
  no-op: the operation returns the system as it was, so no collaborator is called, the
  snapshot and the persisted address are the same, and repeating the call changes
  nothing either.
\<close>

theorem setContractAddress_current_selection_noop:
  "setContractAddress c (contractAddress (state s)) s = (Returned, s) \<and>
   calls (snd (setContractAddress c (contractAddress (state s)) s)) = calls s \<and>
   snd (setContractAddress c (contractAddress (state s))
          (snd (setContractAddress c (contractAddress (state s)) s))) = s"
  by (simp add: setContractAddress_def)

theorem setContractAddress_current_selection_noop_witness:
  "setContractAddress example_chain ''KT1multisig'' example_loaded = (Returned, example_loaded)"
  using setContractAddress_current_selection_noop [of example_chain example_loaded]
  by (simp add: example_loaded_eq)

section \<open>The bound of the minimum votes proposal\<close>

text \<open>
  C6. With a contract storage loaded, \<open>createMinimumVotesProposal v\<close> passes its
  validation (and so goes on to contact a collaborator, leaving the error message as it
  was) exactly when \<open>0 < v\<close> and \<open>v\<close> is at most the number of users of that storage.
  Otherwise it only sets the error message whose text states the bound: no collaborator
  is called and the rest of the snapshot, the proposals included, is unchanged.
\<close>

theorem createMinimumVotesProposal_bound:
  assumes "storage (state s) = Some st"
  shows "((0 < v \<and> v \<le> int (length (storage_users st))) \<longleftrightarrow>
            calls (snd (createMinimumVotesProposal c v s)) \<noteq> calls s) \<and>
         (0 < v \<and> v \<le> int (length (storage_users st)) \<longrightarrow>
            errorMessage (state (snd (createMinimumVotesProposal c v s)))
              = errorMessage (state s)) \<and>
         (\<not> (0 < v \<and> v \<le> int (length (storage_users st))) \<longrightarrow>
            createMinimumVotesProposal c v s =
              (Returned, setErrorMessage (Some ''The minimum votes need to be higher than 0 and less or equal to the number of multisig users'') s))"
proof -
  let ?ok = "0 < v \<and> v \<le> int (length (storage_users st))"
  have rej: "\<not> ?ok \<Longrightarrow> createMinimumVotesProposal c v s =
      (Returned, setErrorMessage (Some ''The minimum votes need to be higher than 0 and less or equal to the number of multisig users'') s)"
    using assms by (auto simp add: createMinimumVotesProposal_def)
  have pass: "?ok \<Longrightarrow>
      createMinimumVotesProposal c v s = via_contract c (Minimum_votes_proposal v) s"
    using assms by (auto simp add: createMinimumVotesProposal_def)
  have grow: "?ok \<Longrightarrow> calls (snd (createMinimumVotesProposal c v s)) \<noteq> calls s"
    using via_contract_calls [where c = c and e = "Minimum_votes_proposal v" and s = s] pass
    by auto
  have keep: "?ok \<Longrightarrow>
      errorMessage (state (snd (createMinimumVotesProposal c v s))) = errorMessage (state s)"
    using via_contract_errorMessage [where c = c and e = "Minimum_votes_proposal v" and s = s]
      pass by simp
  have same: "\<not> ?ok \<Longrightarrow> calls (snd (createMinimumVotesProposal c v s)) = calls s"
    using rej by simp
  show ?thesis using rej grow keep same by blast
qed

theorem createMinimumVotesProposal_bound_witness:
  "storage (state example_loaded) = Some (example_storage 0) \<and>
   createMinimumVotesProposal example_chain 0 example_loaded =
     (Returned, setErrorMessage (Some ''The minimum votes need to be higher than 0 and less or equal to the number of multisig users'') example_loaded) \<and>
   calls (snd (createMinimumVotesProposal example_chain 3 example_loaded))
     \<noteq> calls example_loaded \<and>
   calls (snd (createMinimumVotesProposal example_chain 4 example_loaded))
     = calls example_loaded"
proof -
  have loaded: "storage (state example_loaded) = Some (example_storage 0)"
    by (simp add: example_loaded_eq)
  have users: "length (storage_users (example_storage 0)) = 3"
    by (simp add: example_storage_def)
  show ?thesis
    using loaded
      createMinimumVotesProposal_bound [OF loaded, of 0 example_chain]
      createMinimumVotesProposal_bound [OF loaded, of 3 example_chain]
      createMinimumVotesProposal_bound [OF loaded, of 4 example_chain]
    by (simp add: users)
qed

section \<open>Further facts about the helpers and the examples\<close>

lemma confirmOperation_state:
  "state (confirmOperation c opn s) =
     (case opn of None \<Rightarrow> state s | Some x \<Rightarrow> (state s)\<lparr>informationMessage := None\<rparr>)"
  "world (confirmOperation c opn s) =
     (case opn of None \<Rightarrow> world s | Some x \<Rightarrow> snd (op_confirmation c x (world s)))"
  by (simp_all add: confirmOperation_def split_beta Let_def split: option.splits)

lemma getContract_fields:
  "contractAddress (state (snd (getContract c s))) = contractAddress (state s)"
  "userAddress (state (snd (getContract c s))) = userAddress (state s)"
  "userVotes (state (snd (getContract c s))) = userVotes (state s)"
  "storage (state (snd (getContract c s))) = storage (state s)"
  "balance (state (snd (getContract c s))) = balance (state s)"
  "userAliases (state (snd (getContract c s))) = userAliases (state s)"
  by (simp_all add: getContract_simps split: option.splits)

lemma firstInvalid_Some:
  "firstInvalid c as = Some d \<Longrightarrow> d \<in> set as \<and> \<not> validAddress c d"
  by (induction as) (auto split: if_splits)

lemma firstInvalid_member:
  "a \<in> set as \<Longrightarrow> \<not> validAddress c a \<Longrightarrow> \<exists>d. firstInvalid c as = Some d"
  by (induction as) auto

lemma firstInvalid_None:
  "(firstInvalid c as = None) = (\<forall>a \<in> set as. validAddress c a)"
  by (induction as) auto

lemma example_valid:
  "validAddress example_chain ''tz1alice''" "validAddress example_chain ''tz1bob''"
  "validAddress example_chain ''tz1dave''" "validAddress example_chain ''KT1other''"
  "\<not> validAddress example_chain ''not-an-address''"
  "\<not> validAddress example_chain []"
  by (simp_all add: validAddress_def example_chain_def)

lemma example_valid_variants:
  "validAddress refusing_wallet = validAddress example_chain"
  "validAddress unconfirmed_chain = validAddress example_chain"
  "validAddress rejecting_wallet = validAddress example_chain"
  "validAddress unresolved_contract = validAddress example_chain"
  by (simp_all add: fun_eq_iff validAddress_def refusing_wallet_def unconfirmed_chain_def
      rejecting_wallet_def unresolved_contract_def)

lemma anonymous_loaded_eq:
  "anonymous_loaded =
     \<lparr>state = \<lparr>userAddress = None, contractAddresses = Some [''KT1multisig''],
               contractAddress = ''KT1multisig'', storage = Some (example_storage 0),
               balance = Some 5000000, userAliases = Some [],
               proposals = Some [(0, ''proposal'')], userVotes = None,
               contract = None, informationMessage = None, confirmationMessage = None,
               errorMessage = None\<rparr>,
      localStorage = None, world = 0,
      calls = [GetUserAddress, GetSimilarContractAddresses ''KT1multisig'',
               GetContractStorage ''KT1multisig'', GetBalance ''KT1multisig'',
               GetUserAliases [''tz1alice'', ''tz1bob'', ''tz1carol''],
               GetBigmapKeys 10]\<rparr>"
  by (simp add: anonymous_loaded_def rejecting_wallet_def example_start_def initial_sys_def
      initial_state_def loadInformation_def example_chain_def collab_call_def setState_def
      truthy_def Let_def split_beta example_storage_def)

section \<open>The balance check of the mutez transfer proposal\<close>





section \<open>Validation with no storage loaded\<close>

text \<open>
  C9. With no contract storage in the snapshot, \<open>createMinimumVotesProposal\<close> accepts
  every value above 0, however large, and \<open>createAddUserProposal\<close> accepts every valid
  address, without any check against the user list: neither sets an error message and
  both go on to a collaborator, first the toolkit to resolve the contract handle or,
  with a cached handle, the entry point itself.
\<close>

theorem storage_checks_pass_without_storage:
  assumes "storage (state s) = None"
  shows "(0 < v \<longrightarrow>
            errorMessage (state (snd (createMinimumVotesProposal c v s)))
              = errorMessage (state s) \<and>
            (\<exists>rest. calls (snd (createMinimumVotesProposal c v s)) =
               calls s @ (case contract (state s) of
                            None \<Rightarrow> GetContract (contractAddress (state s))
                          | Some k \<Rightarrow> Send k (Minimum_votes_proposal v)) # rest)) \<and>
         (validAddress c a \<longrightarrow>
            errorMessage (state (snd (createAddUserProposal c a s)))
              = errorMessage (state s) \<and>
            (\<exists>rest. calls (snd (createAddUserProposal c a s)) =
               calls s @ (case contract (state s) of
                            None \<Rightarrow> GetContract (contractAddress (state s))
                          | Some k \<Rightarrow> Send k (Add_user_proposal a)) # rest))"
proof -
  have votes: "createMinimumVotesProposal c v s = via_contract c (Minimum_votes_proposal v) s"
    if "0 < v"
    using that assms by (simp add: createMinimumVotesProposal_def)
  have add: "createAddUserProposal c a s = via_contract c (Add_user_proposal a) s"
    if "validAddress c a"
    using that assms by (simp add: createAddUserProposal_def usersInclude_def)
  show ?thesis
    using via_contract_calls [where c = c and e = "Minimum_votes_proposal v" and s = s]
      via_contract_errorMessage [where c = c and e = "Minimum_votes_proposal v" and s = s]
      via_contract_calls [where c = c and e = "Add_user_proposal a" and s = s]
      via_contract_errorMessage [where c = c and e = "Add_user_proposal a" and s = s]
      votes add
    by auto
qed

theorem storage_checks_pass_without_storage_witness:
  "storage (state example_start) = None \<and> (0::int) < 1000 \<and>
   validAddress example_chain ''tz1alice'' \<and>
   errorMessage (state (snd (createMinimumVotesProposal example_chain 1000 example_start)))
     = None \<and>
   (\<exists>rest. calls (snd (createMinimumVotesProposal example_chain 1000 example_start)) =
      GetContract ''KT1multisig'' # rest) \<and>
   errorMessage (state (snd (createAddUserProposal example_chain ''tz1alice'' example_start)))
     = None \<and>
   (\<exists>rest. calls (snd (createAddUserProposal example_chain ''tz1alice'' example_start)) =
      GetContract ''KT1multisig'' # rest)"
proof -
  have unloaded: "storage (state example_start) = None"
    by (simp add: example_start_def initial_sys_def initial_state_def)
  show ?thesis
    using unloaded
      storage_checks_pass_without_storage [OF unloaded, of 1000 example_chain "''tz1alice''"]
    by (simp add: example_valid example_start_def initial_sys_def initial_state_def)
qed

section \<open>A rejected wallet permission request\<close>

text \<open>
  C8, as the code has it. \<open>connectWallet\<close> does not use the outcome of the permission
  request (a rejection is only logged): it returns normally, takes as identity the
  address the wallet reports after the request, sets no message of any kind and leaves
  storage, balance, aliases and proposals as they were. When the wallet reports no
  address, or no storage is loaded, the vote slice is left as it was and the only
  collaborator calls are the permission request and the address query; when moreover
  the identity was absent and the wallet reports none, the whole snapshot is unchanged.
  When it reports an address and a storage is loaded, the vote slice is downloaded
  for that address.
\<close>

theorem connectWallet_takes_reported_identity:
  "fst (connectWallet c s) = Returned \<and>
   userAddress (state (snd (connectWallet c s))) =
     fst (utils_getUserAddress c (snd (wallet_requestPermissions c (world s)))) \<and>
   errorMessage (state (snd (connectWallet c s))) = errorMessage (state s) \<and>
   informationMessage (state (snd (connectWallet c s))) = informationMessage (state s) \<and>
   confirmationMessage (state (snd (connectWallet c s))) = confirmationMessage (state s) \<and>
   storage (state (snd (connectWallet c s))) = storage (state s) \<and>
   balance (state (snd (connectWallet c s))) = balance (state s) \<and>
   userAliases (state (snd (connectWallet c s))) = userAliases (state s) \<and>
   proposals (state (snd (connectWallet c s))) = proposals (state s) \<and>
   (\<not> truthy (fst (utils_getUserAddress c (snd (wallet_requestPermissions c (world s)))))
      \<or> storage (state s) = None \<longrightarrow>
      userVotes (state (snd (connectWallet c s))) = userVotes (state s) \<and>
      calls (snd (connectWallet c s)) = calls s @ [RequestPermissions, GetUserAddress]) \<and>
   (userAddress (state s) = None \<and>
      fst (utils_getUserAddress c (snd (wallet_requestPermissions c (world s)))) = None \<longrightarrow>
      state (snd (connectWallet c s)) = state s) \<and>
   (truthy (fst (utils_getUserAddress c (snd (wallet_requestPermissions c (world s)))))
      \<longrightarrow> (case storage (state s) of
             None \<Rightarrow> True
           | Some st \<Rightarrow>
               userVotes (state (snd (connectWallet c s))) =
                 fst (utils_getUserVotes c
                        (fst (utils_getUserAddress c
                                (snd (wallet_requestPermissions c (world s)))))
                        (storage_votes st)
                        (snd (utils_getUserAddress c
                                (snd (wallet_requestPermissions c (world s))))))))"
  by (simp add: connectWallet_def split_beta Let_def truthy_def split: option.splits)

theorem connectWallet_takes_reported_identity_witness:
  "userAddress (state anonymous_loaded) = None \<and>
   \<not> fst (wallet_requestPermissions rejecting_wallet (world anonymous_loaded)) \<and>
   fst (utils_getUserAddress rejecting_wallet
     (snd (wallet_requestPermissions rejecting_wallet (world anonymous_loaded)))) = None \<and>
   state (snd (connectWallet rejecting_wallet anonymous_loaded)) = state anonymous_loaded \<and>
   storage (state (snd (connectWallet rejecting_wallet anonymous_loaded)))
     = Some (example_storage 0) \<and>
   errorMessage (state (snd (connectWallet rejecting_wallet anonymous_loaded))) = None \<and>
   truthy (fst (utils_getUserAddress account_keeping_wallet
     (snd (wallet_requestPermissions account_keeping_wallet (world anonymous_loaded))))) \<and>
   userVotes (state (snd (connectWallet account_keeping_wallet anonymous_loaded)))
     = Some [(0, True)]"
proof -
  have absent: "userAddress (state anonymous_loaded) = None"
    "storage (state anonymous_loaded) = Some (example_storage 0)"
    "errorMessage (state anonymous_loaded) = None"
    by (simp_all add: anonymous_loaded_eq)
  have rejected: "\<not> fst (wallet_requestPermissions rejecting_wallet (world anonymous_loaded))"
    by (simp add: rejecting_wallet_def)
  have no_account: "fst (utils_getUserAddress rejecting_wallet
      (snd (wallet_requestPermissions rejecting_wallet (world anonymous_loaded)))) = None"
    by (simp add: rejecting_wallet_def)
  have account: "fst (utils_getUserAddress account_keeping_wallet
      (snd (wallet_requestPermissions account_keeping_wallet (world anonymous_loaded))))
        = Some ''tz1alice''"
    "fst (utils_getUserVotes account_keeping_wallet (Some ''tz1alice'')
       (storage_votes (example_storage 0))
       (snd (utils_getUserAddress account_keeping_wallet
          (snd (wallet_requestPermissions account_keeping_wallet (world anonymous_loaded))))))
        = Some [(0, True)]"
    by (simp_all add: account_keeping_wallet_def example_chain_def anonymous_loaded_eq)
  show ?thesis
    using absent rejected no_account account
      connectWallet_takes_reported_identity [of rejecting_wallet anonymous_loaded]
      connectWallet_takes_reported_identity [of account_keeping_wallet anonymous_loaded]
    by (simp add: truthy_def)
qed

text \<open>
  The wallet rejects the request but still has an active account (it was activated
  after the mount): the identity, absent before, is set and the votes are downloaded.
\<close>

theorem rejected_request_sets_identity:
  "userAddress (state anonymous_loaded) = None \<and>
   \<not> fst (wallet_requestPermissions account_keeping_wallet (world anonymous_loaded)) \<and>
   userAddress (state (snd (connectWallet account_keeping_wallet anonymous_loaded)))
     = Some ''tz1alice'' \<and>
   userVotes (state (snd (connectWallet account_keeping_wallet anonymous_loaded)))
     = Some [(0, True)] \<and>
   calls (snd (connectWallet account_keeping_wallet anonymous_loaded)) =
     calls anonymous_loaded @
       [RequestPermissions, GetUserAddress, GetUserVotes (Some ''tz1alice'') 11]"
  by (simp add: connectWallet_def account_keeping_wallet_def example_chain_def
      anonymous_loaded_eq collab_call_def setState_def truthy_def split_beta Let_def
      example_storage_def)

section \<open>Operations that find no contract handle\<close>

lemma via_contract_state_unresolved:
  assumes "contract (state s) = None"
    and "fst (utils_getContract c (contractAddress (state s)) (world s)) = None"
    and "r = via_contract c e s"
  shows "fst r = Returned \<and> state (snd r) = state s \<and>
         calls (snd r) = calls s @ [GetContract (contractAddress (state s))]"
  using via_contract_unresolved [OF assms(1,2)] assms(3) by simp

text \<open>
  C10. Let no handle be cached and let the toolkit return none for the selected
  address. Then every proposal operation that gets past its validation (that is, makes
  any collaborator call at all), and every vote and execute operation, returns
  normally with the snapshot exactly as it was, so no message of any kind is set, and
  its only collaborator call is the resolution of the handle: no entry point is sent.
\<close>

theorem silent_return_without_contract:
  assumes "contract_action a"
    and "contract (state s) = None"
    and "fst (utils_getContract c (contractAddress (state s)) (world s)) = None"
  shows "(calls (snd (perform c a s)) \<noteq> calls s \<or> (\<exists>i b. a = VoteProposal i b)
            \<or> (\<exists>i. a = ExecuteProposal i)
          \<longrightarrow>
            fst (perform c a s) = Returned \<and>
            state (snd (perform c a s)) = state s \<and>
            calls (snd (perform c a s)) = calls s @ [GetContract (contractAddress (state s))])"
proof -
  note tail = via_contract_state_unresolved [OF assms(2,3)]
  show ?thesis
  proof (cases a)
    case (CreateTextProposal p)
    then show ?thesis using tail [of "createTextProposal c p s"]
      by (auto simp add: createTextProposal_def split: option.splits if_splits)
  next
    case (CreateTransferMutezProposal ts)
    then show ?thesis using tail [of "createTransferMutezProposal c ts s"]
      by (auto simp add: createTransferMutezProposal_def
          split: option.splits if_splits sum.splits)
  next
    case (CreateTransferTokenProposal t i ts)
    then show ?thesis using tail [of "createTransferTokenProposal c t i ts s"]
      by (auto simp add: createTransferTokenProposal_def split: option.splits if_splits)
  next
    case (CreateMinimumVotesProposal v)
    then show ?thesis using tail [of "createMinimumVotesProposal c v s"]
      by (auto simp add: createMinimumVotesProposal_def split: option.splits if_splits)
  next
    case (CreateExpirationTimeProposal v)
    then show ?thesis using tail [of "createExpirationTimeProposal c v s"]
      by (auto simp add: createExpirationTimeProposal_def split: option.splits if_splits)
  next
    case (CreateAddUserProposal u)
    then show ?thesis using tail [of "createAddUserProposal c u s"]
      by (auto simp add: createAddUserProposal_def split: option.splits if_splits)
  next
    case (CreateRemoveUserProposal u)
    then show ?thesis using tail [of "createRemoveUserProposal c u s"]
      by (auto simp add: createRemoveUserProposal_def split: option.splits if_splits)
  next
    case (CreateLambdaFunctionProposal m)
    then show ?thesis using tail [of "createLambdaFunctionProposal c m s"]
      by (auto simp add: createLambdaFunctionProposal_def split: option.splits if_splits)
  next
    case (VoteProposal i b)
    then show ?thesis using assms(2,3)
      by (simp add: voteProposal_def split_beta Let_def getContract_simps)
  next
    case (ExecuteProposal i)
    then show ?thesis using assms(2,3)
      by (simp add: executeProposal_def split_beta Let_def getContract_simps)
  qed (use assms(1) in simp_all)
qed

theorem silent_return_without_contract_witness:
  "contract_action (VoteProposal 0 True) \<and>
   contract_action (CreateExpirationTimeProposal 5) \<and>
   contract (state example_loaded) = None \<and>
   fst (utils_getContract unresolved_contract (contractAddress (state example_loaded))
          (world example_loaded)) = None \<and>
   state (snd (perform unresolved_contract (VoteProposal 0 True) example_loaded))
     = state example_loaded \<and>
   state (snd (perform unresolved_contract (CreateExpirationTimeProposal 5) example_loaded))
     = state example_loaded \<and>
   calls (snd (perform unresolved_contract (CreateExpirationTimeProposal 5) example_loaded))
     = calls example_loaded @ [GetContract ''KT1multisig'']"
proof -
  have cached: "contract (state example_loaded) = None"
    by (simp add: example_loaded_eq)
  have selected: "contractAddress (state example_loaded) = ''KT1multisig''"
    by (simp add: example_loaded_eq)
  have unresolved: "fst (utils_getContract unresolved_contract
      (contractAddress (state example_loaded)) (world example_loaded)) = None"
    by (simp add: unresolved_contract_def)
  have reached: "calls (snd (perform unresolved_contract (CreateExpirationTimeProposal 5)
      example_loaded)) \<noteq> calls example_loaded"
    by (simp add: createExpirationTimeProposal_def getContract_def unresolved_contract_def
        example_chain_def example_loaded_eq collab_call_def setState_def split_beta Let_def)
  have vote: "state (snd (perform unresolved_contract (VoteProposal 0 True) example_loaded))
      = state example_loaded"
    using silent_return_without_contract [OF _ cached unresolved, of "VoteProposal 0 True"]
    by auto
  have expiration:
    "state (snd (perform unresolved_contract (CreateExpirationTimeProposal 5) example_loaded))
       = state example_loaded \<and>
     calls (snd (perform unresolved_contract (CreateExpirationTimeProposal 5) example_loaded))
       = calls example_loaded @ [GetContract ''KT1multisig'']"
    using silent_return_without_contract
        [OF _ cached unresolved, of "CreateExpirationTimeProposal 5"]
      reached selected by simp
  show ?thesis using cached unresolved vote expiration by simp
qed

section \<open>Fetch generations after a refresh\<close>

lemma reads_onlyD:
  assumes "reads_only c"
  shows "snd (utils_getSimilarContractAddresses c a w) = w"
    and "snd (utils_getContractStorage c a w) = w"
    and "snd (utils_getBalance c a w) = w"
    and "snd (utils_getUserAliases c us w) = w"
    and "snd (utils_getBigmapKeys c b w) = w"
    and "snd (utils_getUserVotes c u b w) = w"
  using assms by (simp_all add: reads_only_def)

lemma setContractAddress_generation:
  assumes "reads_only c" and "a \<noteq> contractAddress (state s)" and "validAddress c a"
    and "fst (setContractAddress c a s) = Returned"
  shows "storage_view_at c (world (snd (setContractAddress c a s)))
           (state (snd (setContractAddress c a s))) \<and>
         votes_at c (world (snd (setContractAddress c a s)))
           (state (snd (setContractAddress c a s)))"
  using assms(2,3,4)
  by (simp add: setContractAddress_def split_beta Let_def reads_onlyD [OF assms(1)]
      storage_view_at_def votes_at_def split: option.splits)

lemma loadInformation_generation:
  assumes "reads_only c"
    and "storage (state (snd (loadInformation c s))) \<noteq> None"
  shows "fst (loadInformation c s) = Returned \<and>
         storage_view_at c (world (snd (loadInformation c s)))
           (state (snd (loadInformation c s))) \<and>
         (if truthy (userAddress (state (snd (loadInformation c s))))
          then votes_at c (world (snd (loadInformation c s)))
                 (state (snd (loadInformation c s)))
          else userVotes (state (snd (loadInformation c s))) = userVotes (state s))"
  using assms(2)
  by (simp add: loadInformation_def split_beta Let_def reads_onlyD [OF assms(1)]
      storage_view_at_def votes_at_def split: option.splits if_splits)

lemma executeProposal_generation:
  assumes "reads_only c" and "fst (getContract c s) = Some k"
    and "fst (executeProposal c i s) = Returned"
  shows "storage_view_at c (world (snd (executeProposal c i s)))
           (state (snd (executeProposal c i s))) \<and>
         userVotes (state (snd (executeProposal c i s))) = userVotes (state s)"
  using assms(2,3)
  by (simp add: executeProposal_def split_beta Let_def reads_onlyD [OF assms(1)]
      storage_view_at_def confirmOperation_state getContract_fields
      split: option.splits)

lemma voteProposal_generation:
  assumes "reads_only c" and "fst (getContract c s) = Some k"
    and "fst (voteProposal c i b s) = Returned"
  shows "storage (state (snd (voteProposal c i b s))) = storage (state s) \<and>
         balance (state (snd (voteProposal c i b s))) = balance (state s) \<and>
         userAliases (state (snd (voteProposal c i b s))) = userAliases (state s) \<and>
         votes_at c (world (snd (voteProposal c i b s))) (state (snd (voteProposal c i b s))) \<and>
         (case storage (state s) of
            None \<Rightarrow> False
          | Some st \<Rightarrow>
              proposals (state (snd (voteProposal c i b s))) =
                fst (utils_getBigmapKeys c (storage_proposals st)
                       (world (snd (voteProposal c i b s)))))"
  using assms(2,3)
  by (simp add: voteProposal_def split_beta Let_def reads_onlyD [OF assms(1)]
      votes_at_def confirmOperation_state getContract_fields
      split: option.splits)

lemma example_reads_only: "reads_only example_chain"
  by (simp add: reads_only_def example_chain_def)

lemma example_run_facts:
  "storage (state (snd (loadInformation example_chain example_loaded))) \<noteq> None"
  "fst (setContractAddress example_chain ''KT1other'' example_loaded) = Returned"
  "fst (getContract example_chain example_loaded) \<noteq> None"
  "fst (voteProposal example_chain 0 True example_loaded) = Returned"
  "fst (executeProposal example_chain 0 example_loaded) = Returned"
  "world (snd (executeProposal example_chain 0 example_loaded)) = 1"
  "world (snd (voteProposal example_chain 0 True example_loaded)) = 1"
  by (simp_all add: loadInformation_def setContractAddress_def executeProposal_def
      voteProposal_def getContract_def confirmOperation_def example_chain_def
      validAddress_def example_loaded_eq collab_call_def setState_def
      setInformationMessage_def split_beta Let_def example_storage_def truthy_def)

text \<open>
  C3, as the code has it. Let the chain queries be read-only, so that the world at the
  end of an operation is the generation its fetches saw. After a mount that obtained a
  storage, and after a \<open>setContractAddress\<close> that went through, the storage, balance,
  aliases and proposals are those of that generation, and so is the vote slice (for
  the mount: when the wallet reported an identity; otherwise the slice is left as it
  was). After an \<open>executeProposal\<close> that went through, storage, balance, aliases and
  proposals are those of the new generation and the vote slice is left as it was.
  After a \<open>voteProposal\<close> that went through, storage, balance and aliases are left as
  they were, and the proposals and the vote slice are the new generation's answers
  for the big maps of that unrefreshed storage.
\<close>

theorem refresh_generations:
  assumes "reads_only c"
  shows "(storage (state (snd (loadInformation c s))) \<noteq> None \<longrightarrow>
            fst (loadInformation c s) = Returned \<and>
            storage_view_at c (world (snd (loadInformation c s)))
              (state (snd (loadInformation c s))) \<and>
            (if truthy (userAddress (state (snd (loadInformation c s))))
             then votes_at c (world (snd (loadInformation c s)))
                    (state (snd (loadInformation c s)))
             else userVotes (state (snd (loadInformation c s))) = userVotes (state s))) \<and>
         (a \<noteq> contractAddress (state s) \<and> validAddress c a \<and>
            fst (setContractAddress c a s) = Returned \<longrightarrow>
            storage_view_at c (world (snd (setContractAddress c a s)))
              (state (snd (setContractAddress c a s))) \<and>
            votes_at c (world (snd (setContractAddress c a s)))
              (state (snd (setContractAddress c a s)))) \<and>
         (fst (getContract c s) \<noteq> None \<and> fst (voteProposal c i b s) = Returned \<longrightarrow>
            storage (state (snd (voteProposal c i b s))) = storage (state s) \<and>
            balance (state (snd (voteProposal c i b s))) = balance (state s) \<and>
            userAliases (state (snd (voteProposal c i b s))) = userAliases (state s) \<and>
            votes_at c (world (snd (voteProposal c i b s)))
              (state (snd (voteProposal c i b s))) \<and>
            (case storage (state s) of
               None \<Rightarrow> False
             | Some st \<Rightarrow>
                 proposals (state (snd (voteProposal c i b s))) =
                   fst (utils_getBigmapKeys c (storage_proposals st)
                          (world (snd (voteProposal c i b s)))))) \<and>
         (fst (getContract c s) \<noteq> None \<and> fst (executeProposal c i s) = Returned \<longrightarrow>
            storage_view_at c (world (snd (executeProposal c i s)))
              (state (snd (executeProposal c i s))) \<and>
            userVotes (state (snd (executeProposal c i s))) = userVotes (state s))"
proof -
  show ?thesis
    using loadInformation_generation [OF assms, of s]
      setContractAddress_generation [OF assms, of a s]
      voteProposal_generation [OF assms, of s _ i b]
      executeProposal_generation [OF assms, of s _ i]
    by (cases "fst (getContract c s)") auto
qed

theorem refresh_generations_witness:
  "reads_only example_chain \<and>
   storage_view_at example_chain
     (world (snd (loadInformation example_chain example_loaded)))
     (state (snd (loadInformation example_chain example_loaded))) \<and>
   votes_at example_chain
     (world (snd (setContractAddress example_chain ''KT1other'' example_loaded)))
     (state (snd (setContractAddress example_chain ''KT1other'' example_loaded))) \<and>
   storage (state (snd (voteProposal example_chain 0 True example_loaded)))
     = Some (example_storage 0) \<and>
   votes_at example_chain 1 (state (snd (voteProposal example_chain 0 True example_loaded))) \<and>
   storage_view_at example_chain 1
     (state (snd (executeProposal example_chain 0 example_loaded))) \<and>
   userVotes (state (snd (executeProposal example_chain 0 example_loaded)))
     = Some [(0, True)]"
proof -
  have other: "''KT1other'' \<noteq> contractAddress (state example_loaded)"
    by (simp add: example_loaded_eq)
  have before: "storage (state example_loaded) = Some (example_storage 0)"
    "userVotes (state example_loaded) = Some [(0, True)]"
    by (simp_all add: example_loaded_eq)
  show ?thesis
    using example_reads_only other before example_run_facts example_valid(4)
      refresh_generations [OF example_reads_only, of example_loaded "''KT1other''" 0 True]
    by simp
qed

text \<open>
  On the example chain the mount reads generation 0; executing a proposal moves the
  chain to generation 1. The snapshot then holds the storage of generation 1 next to
  the identity's vote slice of generation 0, which is not the slice of generation 1.
\<close>

theorem executeProposal_keeps_stale_votes:
  "fst (executeProposal example_chain 0 example_loaded) = Returned \<and>
   storage_view_at example_chain
     (world (snd (executeProposal example_chain 0 example_loaded)))
     (state (snd (executeProposal example_chain 0 example_loaded))) \<and>
   \<not> votes_at example_chain
     (world (snd (executeProposal example_chain 0 example_loaded)))
     (state (snd (executeProposal example_chain 0 example_loaded))) \<and>
   storage (state (snd (executeProposal example_chain 0 example_loaded)))
     = Some (example_storage 1) \<and>
   userVotes (state (snd (executeProposal example_chain 0 example_loaded)))
     = Some [(0, True)]"
  by (simp add: executeProposal_def getContract_def confirmOperation_def example_chain_def
      example_loaded_eq collab_call_def setState_def setInformationMessage_def
      split_beta Let_def example_storage_def storage_view_at_def votes_at_def)

section \<open>Failed submissions\<close>




text \<open>
  The re-fetch can change the proposals although nothing was submitted: after an
  origination has moved the chain on, a refused submission replaces the proposals of
  generation 0 by those of generation 1, still with no error message.
\<close>

lemma failed_submission_refetches_proposals:
  "proposals (state (run example_chain
      [Originate \<lparr>name = ''dao'', users = [''tz1alice''], minimumVotes = 1,
                 expirationTime = 7\<rparr>] example_loaded)) = Some [(0, ''proposal'')] \<and>
   proposals (state (run refusing_wallet [CreateExpirationTimeProposal 5]
     (run example_chain
      [Originate \<lparr>name = ''dao'', users = [''tz1alice''], minimumVotes = 1,
                 expirationTime = 7\<rparr>] example_loaded))) = Some [(1, ''proposal'')] \<and>
   errorMessage (state (run refusing_wallet [CreateExpirationTimeProposal 5]
     (run example_chain
      [Originate \<lparr>name = ''dao'', users = [''tz1alice''], minimumVotes = 1,
                 expirationTime = 7\<rparr>] example_loaded))) = None"
  by (simp add: originate_def uploadMetadataToIpfs_def createExpirationTimeProposal_def
      createProposal_def getContract_def confirmOperation_def refusing_wallet_def
      example_chain_def validAddress_def
      example_loaded_eq collab_call_def setState_def setInformationMessage_def
      split_beta Let_def example_storage_def)

section \<open>The three message slots\<close>

text \<open>
  C4, as the code has it. The snapshot has one optional slot per message kind. Setting
  a message of one kind replaces the previous message of that kind and leaves the
  other two slots as they were; nothing is queued, and messages of different kinds
  can be present together.
\<close>

theorem message_slots_independent:
  "state (setInformationMessage m s) = (state s)\<lparr>informationMessage := m\<rparr> \<and>
   state (setConfirmationMessage m s) = (state s)\<lparr>confirmationMessage := m\<rparr> \<and>
   state (setErrorMessage m s) = (state s)\<lparr>errorMessage := m\<rparr> \<and>
   confirmationMessage (state (setErrorMessage m s)) = confirmationMessage (state s) \<and>
   informationMessage (state (setErrorMessage m s)) = informationMessage (state s) \<and>
   errorMessage (state (setInformationMessage m s)) = errorMessage (state s) \<and>
   confirmationMessage (state (setInformationMessage m s)) = confirmationMessage (state s) \<and>
   errorMessage (state (setConfirmationMessage m s)) = errorMessage (state s) \<and>
   informationMessage (state (setConfirmationMessage m s)) = informationMessage (state s)"
  by simp

theorem message_slots_independent_witness:
  "errorMessage (state (setErrorMessage (Some ''second'')
      (setErrorMessage (Some ''first'') example_start))) = Some ''second'' \<and>
   confirmationMessage (state (setErrorMessage (Some ''second'')
      (setConfirmationMessage (Some ''done'') example_start))) = Some ''done''"
  using message_slots_independent [of "Some ''second''"
      "setErrorMessage (Some ''first'') example_start"]
    message_slots_independent [of "Some ''second''"
      "setConfirmationMessage (Some ''done'') example_start"]
  by simp

text \<open>
  From the freshly constructed controller: a component publishes a confirmation
  message, then a text proposal is submitted before its upload. The snapshot holds a
  confirmation message and an error message at once.
\<close>

theorem two_message_kinds_present:
  "confirmationMessage (state (run example_chain
       [SetConfirmationMessage (Some ''The proposal was created''), CreateTextProposal None]
       example_start)) = Some ''The proposal was created'' \<and>
   errorMessage (state (run example_chain
       [SetConfirmationMessage (Some ''The proposal was created''), CreateTextProposal None]
       example_start)) = Some ''The text proposal needs to be uploaded first to IPFS''"
  by (simp add: createTextProposal_def truthy_def example_start_def initial_sys_def
      initial_state_def)

section \<open>Invalid addresses\<close>

text \<open>
  The selected contract address only changes through a validated \<open>setContractAddress\<close>,
  so it stays valid once it is.
\<close>

lemma createProposal_contractAddress:
  "contractAddress (state (snd (createProposal c k e s))) = contractAddress (state s)"
  by (simp add: createProposal_def split_beta Let_def confirmOperation_state
      split: option.splits)

lemma via_contract_contractAddress:
  "contractAddress (state (snd (via_contract c e s))) = contractAddress (state s)"
  by (simp add: split_beta Let_def createProposal_contractAddress getContract_simps
      split: option.splits)

lemma perform_contractAddress:
  "contractAddress (state (snd (perform c a s))) =
     (case a of
        SetContractAddress x \<Rightarrow>
          if validAddress c x \<and> fst (setContractAddress c x s) = Returned then x
          else contractAddress (state s)
      | _ \<Rightarrow> contractAddress (state s))"
proof (cases a)
  case (SetContractAddress x)
  then show ?thesis
    by (simp add: setContractAddress_def split_beta Let_def split: option.splits)
next
  case (CreateTextProposal p)
  then show ?thesis using via_contract_contractAddress [where c = c and s = s]
    by (simp add: createTextProposal_def split: option.splits)
next
  case (CreateTransferMutezProposal ts)
  then show ?thesis using via_contract_contractAddress [where c = c and s = s]
    by (simp add: createTransferMutezProposal_def split: option.splits sum.splits)
next
  case (CreateTransferTokenProposal t i ts)
  then show ?thesis using via_contract_contractAddress [where c = c and s = s]
    by (simp add: createTransferTokenProposal_def split: option.splits)
next
  case (CreateMinimumVotesProposal v)
  then show ?thesis using via_contract_contractAddress [where c = c and s = s]
    by (simp add: createMinimumVotesProposal_def split: option.splits)
next
  case (CreateExpirationTimeProposal v)
  then show ?thesis using via_contract_contractAddress [where c = c and s = s]
    by (simp add: createExpirationTimeProposal_def split: option.splits)
next
  case (CreateAddUserProposal u)
  then show ?thesis using via_contract_contractAddress [where c = c and s = s]
    by (simp add: createAddUserProposal_def split: option.splits)
next
  case (CreateRemoveUserProposal u)
  then show ?thesis using via_contract_contractAddress [where c = c and s = s]
    by (simp add: createRemoveUserProposal_def split: option.splits)
next
  case (CreateLambdaFunctionProposal m)
  then show ?thesis using via_contract_contractAddress [where c = c and s = s]
    by (simp add: createLambdaFunctionProposal_def split: option.splits)
next
  case (VoteProposal i b)
  then show ?thesis
    by (simp add: voteProposal_def split_beta Let_def confirmOperation_state getContract_simps
        split: option.splits)
next
  case (ExecuteProposal i)
  then show ?thesis
    by (simp add: executeProposal_def split_beta Let_def confirmOperation_state
        getContract_simps split: option.splits)
next
  case (Originate p)
  then show ?thesis
    by (simp add: originate_def uploadMetadataToIpfs_def split_beta Let_def
        split: option.splits)
next
  case (UploadMetadataToIpfs m d)
  then show ?thesis by (simp add: uploadMetadataToIpfs_def split_beta Let_def)
next
  case (UploadFileToIpfs f d)
  then show ?thesis by (simp add: uploadFileToIpfs_def split_beta Let_def split: option.splits)
next
  case LoadInformation
  then show ?thesis
    by (simp add: loadInformation_def split_beta Let_def split: option.splits)
next
  case ConnectWallet
  then show ?thesis
    by (simp add: connectWallet_def split_beta Let_def split: option.splits)
next
  case DisconnectWallet
  then show ?thesis by (simp add: disconnectWallet_def split_beta Let_def)
next
  case GetContractHandle
  then show ?thesis by (simp add: getContract_simps split: option.splits)
qed simp_all

lemma run_contractAddress_valid:
  "validAddress c (contractAddress (state s)) \<Longrightarrow>
     validAddress c (contractAddress (state (run c as s)))"
proof (induction as arbitrary: s)
  case Nil
  then show ?case by simp
next
  case (Cons a as)
  have "validAddress c (contractAddress (state (snd (perform c a s))))"
    using Cons.prems by (simp add: perform_contractAddress split: action.splits)
  then show ?case using Cons.IH by simp
qed

text \<open>
  Five of the six operations of C1 reject an invalid address by setting the error
  message and nothing else: the result is the input system with that message, so no
  collaborator was called. For \<open>setContractAddress\<close> the address must differ from the
  selected one, which by the invariant above an invalid address always does once the
  selected address is valid.
\<close>

lemma setContractAddress_invalid:
  "\<not> validAddress c a \<Longrightarrow> a \<noteq> contractAddress (state s) \<Longrightarrow>
     setContractAddress c a s =
       (Returned, setErrorMessage
          (Some (''The provided address is not a valid contract address: '' @ a)) s)"
  by (simp add: setContractAddress_def)

lemma createTransferMutezProposal_invalid:
  assumes "t \<in> set transfers" and "\<not> validAddress c (destination t)"
  shows "\<exists>d. \<not> validAddress c d \<and> createTransferMutezProposal c transfers s =
           (Returned, setErrorMessage
              (Some (''The provided address is not a valid tezos address: '' @ d)) s)"
proof -
  obtain d where d: "sumTransfers c transfers (Fin 0) = Inl d"
    using sumTransfers_invalid [OF assms] by blast
  then have "\<not> validAddress c d" using sumTransfers_Inl by blast
  with d show ?thesis by (auto simp add: createTransferMutezProposal_def)
qed

lemma createTransferTokenProposal_invalid_token:
  "\<not> validAddress c tokenAddress \<Longrightarrow>
     createTransferTokenProposal c tokenAddress tokenId transfers s =
       (Returned, setErrorMessage
          (Some (''The provided token contract address is not a valid tezos address: ''
                 @ tokenAddress)) s)"
  by (simp add: createTransferTokenProposal_def)

lemma createTransferTokenProposal_invalid_destination:
  assumes "t \<in> set transfers" and "\<not> validAddress c (destination t)"
  shows "\<exists>m. createTransferTokenProposal c tokenAddress tokenId transfers s =
           (Returned, setErrorMessage (Some m) s)"
proof (cases "validAddress c tokenAddress")
  case False
  then have "createTransferTokenProposal c tokenAddress tokenId transfers s =
      (Returned, setErrorMessage
         (Some (''The provided token contract address is not a valid tezos address: ''
                @ tokenAddress)) s)"
    by (simp add: createTransferTokenProposal_def)
  then show ?thesis by (rule exI)
next
  case True
  obtain d where "firstInvalid c (map destination transfers) = Some d"
    using firstInvalid_member [of "destination t" "map destination transfers" c] assms by auto
  with True have "createTransferTokenProposal c tokenAddress tokenId transfers s =
      (Returned, setErrorMessage
         (Some (''The provided address is not a valid tezos address: '' @ d)) s)"
    by (simp add: createTransferTokenProposal_def)
  then show ?thesis by (rule exI)
qed

lemma createAddUserProposal_invalid:
  "\<not> validAddress c a \<Longrightarrow>
     createAddUserProposal c a s =
       (Returned, setErrorMessage
          (Some (''The provided address is not a valid tezos address: '' @ a)) s)"
  by (simp add: createAddUserProposal_def)

lemma createRemoveUserProposal_invalid:
  "\<not> validAddress c a \<Longrightarrow>
     createRemoveUserProposal c a s =
       (Returned, setErrorMessage
          (Some (''The provided address is not a valid tezos address: '' @ a)) s)"
  by (simp add: createRemoveUserProposal_def)

text \<open>
  \<open>originate\<close> calls no collaborator on an invalid user address either, but it does not
  set the error message: the operation ends with a TypeError and the snapshot as it
  was.
\<close>

lemma originate_invalid_user:
  assumes "u \<in> set (users p)" and "\<not> validAddress c u"
  shows "originate c p s = (Threw TypeError, s)"
proof -
  obtain d where "firstInvalid c (users p) = Some d"
    using firstInvalid_member [OF assms] by blast
  then show ?thesis by (simp add: originate_def)
qed

text \<open>
  C1 at a concrete input: a user list whose second address is not an address. The
  operation throws, the system is exactly as before, and no error message is there.
\<close>

theorem originate_invalid_user_sets_no_error:
  "originate example_chain
     \<lparr>name = ''dao'', users = [''tz1alice'', ''not-an-address''], minimumVotes = 1,
      expirationTime = 7\<rparr> example_loaded = (Threw TypeError, example_loaded) \<and>
   \<not> validAddress example_chain ''not-an-address'' \<and>
   errorMessage (state example_loaded) = None"
  by (simp add: originate_def example_valid example_loaded_eq)

end
